theory Spec2Isabelle
  imports Main
begin

section \<open>JavaScript values as the server sees them\<close>

text \<open>
  The values that \<^verbatim>\<open>express.json()\<close> parses and \<^verbatim>\<open>res.json\<close> sends. An object is
  the list of its members; \<open>map_of\<close> reads a member, so a list stands for the object that
  \<open>map_of\<close> makes of it. JavaScript numbers are modelled by the integers: the server
  only tests them for zero and copies them.
\<close>

datatype json =
    JNull
  | JBool bool
  | JNum int
  | JStr string
  | JArr "json list"
  | JObj "(string \<times> json) list"

text \<open>
  \<^verbatim>\<open>v.k\<close> for a member name \<open>k\<close> that only objects carry (\<^verbatim>\<open>id\<close>, \<^verbatim>\<open>username\<close>,
  \<^verbatim>\<open>password\<close>, \<^verbatim>\<open>email\<close>): \<open>None\<close> is \<^verbatim>\<open>undefined\<close>. Reading a member of
  \<^verbatim>\<open>null\<close> or \<^verbatim>\<open>undefined\<close> throws; the callers below test for that first.
\<close>

fun property :: "json \<Rightarrow> string \<Rightarrow> json option" where
  "property (JObj kvs) k = map_of kvs k"
| "property v k = None"

text \<open>JavaScript truthiness, as \<^verbatim>\<open>!x\<close> tests it.\<close>

fun truthy :: "json option \<Rightarrow> bool" where
  "truthy None = False"
| "truthy (Some JNull) = False"
| "truthy (Some (JBool b)) = b"
| "truthy (Some (JNum n)) = (n \<noteq> 0)"
| "truthy (Some (JStr s)) = (s \<noteq> [])"
| "truthy (Some (JArr vs)) = True"
| "truthy (Some (JObj kvs)) = True"

text \<open>
  An object literal as \<^verbatim>\<open>res.json\<close> serialises it: a member whose value is
  \<^verbatim>\<open>undefined\<close> is left out.
\<close>

fun members :: "(string \<times> json option) list \<Rightarrow> (string \<times> json) list" where
  "members [] = []"
| "members ((k, None) # ms) = members ms"
| "members ((k, Some v) # ms) = (k, v) # members ms"

definition startsWith :: "string \<Rightarrow> string \<Rightarrow> bool" where
  "startsWith s p = (take (length p) s = p)"

definition slice :: "string \<Rightarrow> nat \<Rightarrow> string" where
  "slice s n = drop n s"

section \<open>Requests, responses, errors\<close>

record request =
  authorization :: "string option"
  body :: "(string \<times> json) list"
  user :: "json option"

text \<open>
  \<open>authorization\<close> is \<^verbatim>\<open>req.headers.authorization\<close>; \<open>body\<close> holds the members of
  \<^verbatim>\<open>req.body\<close>, the object that \<^verbatim>\<open>express.json()\<close> leaves there; \<open>user\<close> is
  \<^verbatim>\<open>req.user\<close>, \<^verbatim>\<open>undefined\<close> until the middleware sets it.
\<close>

record response =
  status :: nat
  json :: json

text \<open>A thrown JavaScript error; the server only ever looks at its \<^verbatim>\<open>name\<close>.\<close>

datatype js_error = Error (name: string)

text \<open>The argument of \<^verbatim>\<open>expiresIn\<close>: \<^verbatim>\<open>'1h'\<close> is \<open>Hours 1\<close>.\<close>

datatype timespan = Seconds nat | Minutes nat | Hours nat | Days nat

datatype sign_options = Options (expiresIn: timespan)

section \<open>The server\<close>

definition DEMO_USER :: json where
  "DEMO_USER = JObj
     [(''id'', JNum 1),
      (''username'', JStr ''admin''),
      (''password'', JStr ''password123''),
      (''email'', JStr ''admin@example.com'')]"

text \<open>\<^verbatim>\<open>process.env.JWT_SECRET || 'your_secret_key_change_in_production'\<close>\<close>

definition JWT_SECRET :: "string option \<Rightarrow> string" where
  "JWT_SECRET env =
     (case env of
        None \<Rightarrow> ''your_secret_key_change_in_production''
      | Some s \<Rightarrow> if s = [] then ''your_secret_key_change_in_production'' else s)"

text \<open>
  The middleware. \<open>jwt_verify\<close> is \<^verbatim>\<open>jwt.verify\<close> of the jsonwebtoken package (the
  decoded payload, or the error it throws); \<open>next\<close> is the rest of the route. Express
  catches what a handler throws inside the handler's own layer, so \<open>Inl\<close> from \<open>next\<close>
  is an error on its way to Express's error handling and does not reach the
  \<^verbatim>\<open>catch\<close> here.
\<close>

definition verifyToken ::
  "(string \<Rightarrow> string \<Rightarrow> js_error + json) \<Rightarrow> string \<Rightarrow> request \<Rightarrow>
   (request \<Rightarrow> js_error + response) \<Rightarrow> js_error + response" where
  "verifyToken jwt_verify secret req next =
     (case authorization req of
        None \<Rightarrow> Inr \<lparr>status = 401, json = JObj [(''message'', JStr ''No token provided'')]\<rparr>
      | Some authHeader \<Rightarrow>
          if authHeader = [] then
            Inr \<lparr>status = 401, json = JObj [(''message'', JStr ''No token provided'')]\<rparr>
          else
            let token = (if startsWith authHeader ''Bearer '' then Some (slice authHeader 7)
                         else None)
            in (case token of
                  None \<Rightarrow>
                    Inr \<lparr>status = 401,
                         json = JObj [(''message'', JStr ''Invalid token format. Use Bearer <token>'')]\<rparr>
                | Some tok \<Rightarrow>
                    if tok = [] then
                      Inr \<lparr>status = 401,
                           json = JObj [(''message'', JStr ''Invalid token format. Use Bearer <token>'')]\<rparr>
                    else
                      (case jwt_verify tok secret of
                         Inr decoded \<Rightarrow> next (req\<lparr>user := Some decoded\<rparr>)
                       | Inl error \<Rightarrow>
                           if name error = ''TokenExpiredError'' then
                             Inr \<lparr>status = 401, json = JObj [(''message'', JStr ''Token has expired'')]\<rparr>
                           else if name error = ''JsonWebTokenError'' then
                             Inr \<lparr>status = 401, json = JObj [(''message'', JStr ''Invalid token'')]\<rparr>
                           else
                             Inr \<lparr>status = 401,
                                  json = JObj [(''message'', JStr ''Token verification failed'')]\<rparr>)))"

text \<open>The object literal that the login route hands to \<^verbatim>\<open>jwt.sign\<close>.\<close>

definition token_payload :: json where
  "token_payload = JObj (members
     [(''id'', property DEMO_USER ''id''),
      (''username'', property DEMO_USER ''username''),
      (''email'', property DEMO_USER ''email'')])"

text \<open>\<^verbatim>\<open>POST /api/login\<close>. \<open>jwt_sign\<close> is \<^verbatim>\<open>jwt.sign\<close> of the jsonwebtoken package.\<close>

definition post_api_login ::
  "(json \<Rightarrow> string \<Rightarrow> sign_options \<Rightarrow> string) \<Rightarrow> string \<Rightarrow> request \<Rightarrow> response" where
  "post_api_login jwt_sign secret req =
     (let username = map_of (body req) ''username'';
          password = map_of (body req) ''password''
      in if \<not> truthy username \<or> \<not> truthy password then
           \<lparr>status = 400, json = JObj [(''message'', JStr ''Username and password are required'')]\<rparr>
         else if username = property DEMO_USER ''username'' \<and> password = property DEMO_USER ''password'' then
           let token = jwt_sign token_payload secret (Options (Hours 1))
           in \<lparr>status = 200,
               json = JObj [(''message'', JStr ''Login successful''), (''token'', JStr token)]\<rparr>
         else
           \<lparr>status = 401, json = JObj [(''message'', JStr ''Invalid credentials'')]\<rparr>)"

text \<open>
  The two protected handlers. Reading \<^verbatim>\<open>req.user.id\<close> throws a \<^verbatim>\<open>TypeError\<close> when
  \<^verbatim>\<open>req.user\<close> is \<^verbatim>\<open>undefined\<close> or \<^verbatim>\<open>null\<close>.
\<close>

definition profile_handler :: "request \<Rightarrow> js_error + response" where
  "profile_handler req =
     (case user req of
        None \<Rightarrow> Inl (Error ''TypeError'')
      | Some u \<Rightarrow>
          if u = JNull then Inl (Error ''TypeError'')
          else Inr \<lparr>status = 200,
                    json = JObj
                      [(''message'', JStr ''User profile data''),
                       (''user'', JObj (members
                          [(''id'', property u ''id''),
                           (''username'', property u ''username''),
                           (''email'', property u ''email'')]))]\<rparr>)"

text \<open>\<open>isoNow\<close> is \<^verbatim>\<open>new Date().toISOString()\<close> at the time of the request.\<close>

definition user_data_handler :: "string \<Rightarrow> request \<Rightarrow> js_error + response" where
  "user_data_handler isoNow req =
     (case user req of
        None \<Rightarrow> Inl (Error ''TypeError'')
      | Some u \<Rightarrow>
          if u = JNull then Inl (Error ''TypeError'')
          else Inr \<lparr>status = 200,
                    json = JObj
                      [(''message'', JStr ''This is protected user data''),
                       (''data'', JObj (members
                          [(''userId'', property u ''id''),
                           (''accessLevel'', Some (JStr ''admin'')),
                           (''lastAccessed'', Some (JStr isoNow))]))]\<rparr>)"

text \<open>\<^verbatim>\<open>app.get('/api/profile', verifyToken, ...)\<close> and \<^verbatim>\<open>app.get('/api/user-data', verifyToken, ...)\<close>\<close>

definition get_api_profile ::
  "(string \<Rightarrow> string \<Rightarrow> js_error + json) \<Rightarrow> string \<Rightarrow> request \<Rightarrow> js_error + response" where
  "get_api_profile jwt_verify secret req = verifyToken jwt_verify secret req profile_handler"

definition get_api_user_data ::
  "(string \<Rightarrow> string \<Rightarrow> js_error + json) \<Rightarrow> string \<Rightarrow> string \<Rightarrow> request \<Rightarrow>
   js_error + response" where
  "get_api_user_data jwt_verify secret isoNow req =
     verifyToken jwt_verify secret req (user_data_handler isoNow)"

section \<open>Stand-ins for the jsonwebtoken package\<close>

text \<open>
  Concrete functions to put in the place of \<^verbatim>\<open>jwt.sign\<close> and \<^verbatim>\<open>jwt.verify\<close> when a
  route is run on a concrete request: a signer that hands out one token, a verifier
  that accepts that token with the login payload, reports a second token as expired and
  rejects every other string, and a verifier that accepts every string.
\<close>

definition stub_sign :: "json \<Rightarrow> string \<Rightarrow> sign_options \<Rightarrow> string" where
  "stub_sign payload secret opts = ''header.claims.signature''"

definition stub_verify :: "string \<Rightarrow> string \<Rightarrow> js_error + json" where
  "stub_verify token secret =
     (if token = ''header.claims.signature'' then Inr token_payload
      else if token = ''header.stale.signature'' then Inl (Error ''TokenExpiredError'')
      else Inl (Error ''JsonWebTokenError''))"

definition accept_all :: "string \<Rightarrow> string \<Rightarrow> js_error + json" where
  "accept_all token secret = Inr (JObj [])"

section \<open>Issuing and verifying tokens\<close>

text \<open>
  Modelled from the spec: \<^verbatim>\<open>jwt.sign\<close> and \<^verbatim>\<open>jwt.verify\<close> belong to the jsonwebtoken
  package, which is not among the sources. The spec's data model gives a token as
  \<^verbatim>\<open>encode(Header, Claims-with-expiry, Signature)\<close> with
  \<^verbatim>\<open>Signature = MAC(Header || Claims, secret)\<close>; \<open>token_parts\<close> are the three parts
  before encoding. The encoding, its parser and the MAC are left open, as the spec
  leaves them, and are the fields of a \<open>jwt_scheme\<close>. Time is counted in seconds.
\<close>

record token_parts =
  header :: string
  claims :: json
  expiry :: nat
  signature :: string

text \<open>
  Modelled from the spec: what the spec leaves to the implementer of a token format. \<open>alg\<close>
  is the algorithm that the header fixes; \<open>mac u secret\<close> is the signature of the unsigned
  part \<open>u\<close> (header, claims, expiry) under \<open>secret\<close>.
\<close>

record jwt_scheme =
  alg :: string
  encode :: "token_parts \<Rightarrow> string"
  parse :: "string \<Rightarrow> token_parts option"
  mac :: "string \<times> json \<times> nat \<Rightarrow> string \<Rightarrow> string"

text \<open>Modelled from the spec: the validity window in seconds; one hour is 3600.\<close>

fun span_seconds :: "timespan \<Rightarrow> nat" where
  "span_seconds (Seconds n) = n"
| "span_seconds (Minutes n) = 60 * n"
| "span_seconds (Hours n) = 3600 * n"
| "span_seconds (Days n) = 86400 * n"

text \<open>
  Modelled from the spec: the parts of the token that the Token Issuer (section 4.1)
  makes at the time \<open>now\<close>. The header, the claims and the expiry (now plus the window)
  are signed with the secret.
\<close>

definition issued_parts ::
  "jwt_scheme \<Rightarrow> nat \<Rightarrow> json \<Rightarrow> string \<Rightarrow> sign_options \<Rightarrow> token_parts" where
  "issued_parts L now payload secret opts =
     (let exp = now + span_seconds (expiresIn opts)
      in \<lparr>header = alg L, claims = payload, expiry = exp,
          signature = mac L (alg L, payload, exp) secret\<rparr>)"


text \<open>
  Modelled from the spec: the two failures of the Token Verifier (section 7), under the
  names that the \<^verbatim>\<open>catch\<close> of \<open>verifyToken\<close> tests for.
\<close>

definition InvalidToken :: js_error where
  "InvalidToken = Error ''JsonWebTokenError''"

definition TokenExpired :: js_error where
  "TokenExpired = Error ''TokenExpiredError''"

text \<open>
  Modelled from the spec: the Token Verifier (section 4.2), which stands for
  \<^verbatim>\<open>jwt.verify\<close>. The token is parsed, the signature is recomputed and compared,
  then the expiry is checked: a token whose signature is valid fails from its expiry on.
\<close>

definition verify :: "jwt_scheme \<Rightarrow> nat \<Rightarrow> string \<Rightarrow> string \<Rightarrow> js_error + json" where
  "verify L now token secret =
     (case parse L token of
        None \<Rightarrow> Inl InvalidToken
      | Some p \<Rightarrow>
          if signature p \<noteq> mac L (header p, claims p, expiry p) secret then Inl InvalidToken
          else if expiry p \<le> now then Inl TokenExpired
          else Inr (claims p))"

section \<open>A scheme over a finite code book\<close>





section \<open>The carrier: what \<open>verifyToken\<close> does with the Authorization header\<close>

lemma startsWith_Bearer_iff: "startsWith h ''Bearer '' \<longleftrightarrow> (\<exists>t. h = ''Bearer '' @ t)"
proof
  assume "startsWith h ''Bearer ''"
  then have "take (length ''Bearer '') h = ''Bearer ''" unfolding startsWith_def .
  then have "h = ''Bearer '' @ drop (length ''Bearer '') h" by (metis append_take_drop_id)
  then show "\<exists>t. h = ''Bearer '' @ t" ..
next
  assume "\<exists>t. h = ''Bearer '' @ t"
  then show "startsWith h ''Bearer ''" by (auto simp: startsWith_def)
qed

lemma verifyToken_no_header:
  "authorization req = None \<or> authorization req = Some [] \<Longrightarrow>
   verifyToken jv secret req next =
     Inr \<lparr>status = 401, json = JObj [(''message'', JStr ''No token provided'')]\<rparr>"
  by (auto simp: verifyToken_def)

lemma verifyToken_malformed:
  "authorization req = Some h \<Longrightarrow> h \<noteq> [] \<Longrightarrow> \<not> startsWith h ''Bearer '' \<or> h = ''Bearer '' \<Longrightarrow>
   verifyToken jv secret req next =
     Inr \<lparr>status = 401, json = JObj [(''message'', JStr ''Invalid token format. Use Bearer <token>'')]\<rparr>"
  by (auto simp: verifyToken_def slice_def)

lemma verifyToken_bearer:
  "authorization req = Some (''Bearer '' @ t) \<Longrightarrow> t \<noteq> [] \<Longrightarrow>
   verifyToken jv secret req next =
     (case jv t secret of
        Inr decoded \<Rightarrow> next (req\<lparr>user := Some decoded\<rparr>)
      | Inl error \<Rightarrow>
          Inr \<lparr>status = 401,
               json = JObj [(''message'', JStr
                 (if name error = ''TokenExpiredError'' then ''Token has expired''
                  else if name error = ''JsonWebTokenError'' then ''Invalid token''
                  else ''Token verification failed''))]\<rparr>)"
  by (simp add: verifyToken_def startsWith_def slice_def split: sum.splits)

text \<open>
  Claim C9. A request whose Authorization header is exactly \<open>Bearer\<close> followed by one
  space, or \<open>Bearer\<close> with no space, is answered 401 with the message
  \<open>Invalid token format. Use Bearer <token>\<close>: not with the no-token message and not
  with the invalid-token message. The answer is the same whatever \<open>jwt_verify\<close> and
  \<open>next\<close> are, so neither the verifier nor the handler has a part in it.
\<close>

theorem bearer_without_token_is_malformed:
  "authorization req = Some ''Bearer '' \<or> authorization req = Some ''Bearer'' \<Longrightarrow>
   verifyToken jwt_verify secret req next =
     Inr \<lparr>status = 401, json = JObj [(''message'', JStr ''Invalid token format. Use Bearer <token>'')]\<rparr>"
  by (auto simp: verifyToken_def startsWith_def slice_def)

text \<open>
  Both headers, with a verifier that would accept the empty token had it been asked.
\<close>

theorem bearer_without_token_is_malformed_witness:
  "verifyToken accept_all ''s3cret'' \<lparr>authorization = Some ''Bearer '', body = [], user = None\<rparr>
     profile_handler =
     Inr \<lparr>status = 401, json = JObj [(''message'', JStr ''Invalid token format. Use Bearer <token>'')]\<rparr>
   \<and> verifyToken accept_all ''s3cret'' \<lparr>authorization = Some ''Bearer'', body = [], user = None\<rparr>
     profile_handler =
     Inr \<lparr>status = 401, json = JObj [(''message'', JStr ''Invalid token format. Use Bearer <token>'')]\<rparr>
   \<and> accept_all [] ''s3cret'' = Inr (JObj [])"
  using bearer_without_token_is_malformed
      [of "\<lparr>authorization = Some ''Bearer '', body = [], user = None\<rparr>" accept_all "''s3cret''" profile_handler]
    bearer_without_token_is_malformed
      [of "\<lparr>authorization = Some ''Bearer'', body = [], user = None\<rparr>" accept_all "''s3cret''" profile_handler]
  by (simp add: accept_all_def)

text \<open>
  Claim C5 says that every header starting with \<open>Bearer\<close> and a space has the rest
  handed to the verifier. For the header that is just this prefix the rest is the empty
  string, and the middleware answers 401 with the format message instead: with a
  verifier that accepts every token the request would have reached the handler and
  been answered 200, had the verifier been asked.
\<close>

theorem empty_bearer_token_counterexample:
  "accept_all (slice ''Bearer '' 7) ''s3cret'' = Inr (JObj [])
   \<and> profile_handler (\<lparr>authorization = Some ''Bearer '', body = [], user = None\<rparr>\<lparr>user := Some (JObj [])\<rparr>)
       = Inr \<lparr>status = 200, json = JObj [(''message'', JStr ''User profile data''), (''user'', JObj [])]\<rparr>
   \<and> verifyToken accept_all ''s3cret'' \<lparr>authorization = Some ''Bearer '', body = [], user = None\<rparr>
       profile_handler
       = Inr \<lparr>status = 401, json = JObj [(''message'', JStr ''Invalid token format. Use Bearer <token>'')]\<rparr>"
  by (simp add: accept_all_def profile_handler_def verifyToken_def startsWith_def slice_def)

text \<open>
  Claim C5, amended. An absent or empty Authorization header is answered 401
  \<open>No token provided\<close>; a non-empty header that does not start with \<open>Bearer\<close> and a
  space, or that is just this prefix, is answered 401 with the format message; in both
  cases whatever the verifier is. Every other header has the non-empty rest after the
  prefix handed to the verifier, whose result decides the answer.
\<close>

theorem carrier_extraction:
  "(authorization req = None \<or> authorization req = Some [] \<longrightarrow>
      verifyToken jwt_verify secret req next =
        Inr \<lparr>status = 401, json = JObj [(''message'', JStr ''No token provided'')]\<rparr>)
   \<and> (\<forall>h. authorization req = Some h \<and> h \<noteq> [] \<and> (\<not> startsWith h ''Bearer '' \<or> h = ''Bearer '') \<longrightarrow>
      verifyToken jwt_verify secret req next =
        Inr \<lparr>status = 401,
             json = JObj [(''message'', JStr ''Invalid token format. Use Bearer <token>'')]\<rparr>)
   \<and> (\<forall>t. authorization req = Some (''Bearer '' @ t) \<and> t \<noteq> [] \<longrightarrow>
      verifyToken jwt_verify secret req next =
        (case jwt_verify t secret of
           Inr decoded \<Rightarrow> next (req\<lparr>user := Some decoded\<rparr>)
         | Inl error \<Rightarrow>
             Inr \<lparr>status = 401,
                  json = JObj [(''message'', JStr
                    (if name error = ''TokenExpiredError'' then ''Token has expired''
                     else if name error = ''JsonWebTokenError'' then ''Invalid token''
                     else ''Token verification failed''))]\<rparr>))"
  using verifyToken_no_header [of req jwt_verify secret "next"]
    verifyToken_malformed [of req _ jwt_verify secret "next"]
    verifyToken_bearer [of req _ jwt_verify secret "next"]
  by blast

text \<open>
  No header, a Basic header, a token that the verifier accepts and a string that is no
  token.
\<close>

theorem carrier_extraction_witness:
  "verifyToken stub_verify ''s3cret'' \<lparr>authorization = None, body = [], user = None\<rparr>
       profile_handler
     = Inr \<lparr>status = 401, json = JObj [(''message'', JStr ''No token provided'')]\<rparr>
   \<and> verifyToken stub_verify ''s3cret''
         \<lparr>authorization = Some ''Basic abc'', body = [], user = None\<rparr> profile_handler
     = Inr \<lparr>status = 401, json = JObj [(''message'', JStr ''Invalid token format. Use Bearer <token>'')]\<rparr>
   \<and> verifyToken stub_verify ''s3cret''
         \<lparr>authorization = Some ''Bearer header.claims.signature'', body = [], user = None\<rparr>
         profile_handler
     = profile_handler
         \<lparr>authorization = Some ''Bearer header.claims.signature'', body = [],
          user = Some token_payload\<rparr>
   \<and> verifyToken stub_verify ''s3cret''
         \<lparr>authorization = Some ''Bearer not-a-real-token'', body = [], user = None\<rparr> profile_handler
     = Inr \<lparr>status = 401, json = JObj [(''message'', JStr ''Invalid token'')]\<rparr>"
proof -
  have v1: "stub_verify ''header.claims.signature'' ''s3cret'' = Inr token_payload"
    by (simp add: stub_verify_def)
  have v2: "stub_verify ''not-a-real-token'' ''s3cret'' = Inl (Error ''JsonWebTokenError'')"
    by (simp add: stub_verify_def)
  note c = carrier_extraction [of _ stub_verify "''s3cret''" profile_handler]
  have a: "verifyToken stub_verify ''s3cret'' \<lparr>authorization = None, body = [], user = None\<rparr>
       profile_handler
     = Inr \<lparr>status = 401, json = JObj [(''message'', JStr ''No token provided'')]\<rparr>"
    using c [of "\<lparr>authorization = None, body = [], user = None\<rparr>"] by simp
  have b: "verifyToken stub_verify ''s3cret''
         \<lparr>authorization = Some ''Basic abc'', body = [], user = None\<rparr> profile_handler
     = Inr \<lparr>status = 401, json = JObj [(''message'', JStr ''Invalid token format. Use Bearer <token>'')]\<rparr>"
    using c [of "\<lparr>authorization = Some ''Basic abc'', body = [], user = None\<rparr>"]
    by (simp add: startsWith_def)
  have d: "verifyToken stub_verify ''s3cret''
         \<lparr>authorization = Some ''Bearer header.claims.signature'', body = [], user = None\<rparr>
         profile_handler
     = profile_handler
         \<lparr>authorization = Some ''Bearer header.claims.signature'', body = [],
          user = Some token_payload\<rparr>"
    using c [of "\<lparr>authorization = Some ''Bearer header.claims.signature'', body = [], user = None\<rparr>"]
      v1
    by simp
  have e: "verifyToken stub_verify ''s3cret''
         \<lparr>authorization = Some ''Bearer not-a-real-token'', body = [], user = None\<rparr> profile_handler
     = Inr \<lparr>status = 401, json = JObj [(''message'', JStr ''Invalid token'')]\<rparr>"
    using c [of "\<lparr>authorization = Some ''Bearer not-a-real-token'', body = [], user = None\<rparr>"] v2
    by simp
  from a b d e show ?thesis by blast
qed

section \<open>The request gate\<close>

text \<open>
  Claim C2. On \<^verbatim>\<open>GET /api/profile\<close> and \<^verbatim>\<open>GET /api/user-data\<close> the handler runs
  only when the bearer token was verified, and then on the request with the decoded
  claims attached as \<open>user\<close>. When verification does not succeed (no token, a malformed
  carrier, or an error thrown by the verifier) the answer is a 401 with one of five
  messages, the same for every handler put behind the middleware: the handler has no
  part in it.
\<close>

theorem request_gate:
  "(\<forall>t d. authorization req = Some (''Bearer '' @ t) \<and> t \<noteq> [] \<and> jwt_verify t secret = Inr d \<longrightarrow>
      verifyToken jwt_verify secret req next = next (req\<lparr>user := Some d\<rparr>)
      \<and> get_api_profile jwt_verify secret req = profile_handler (req\<lparr>user := Some d\<rparr>)
      \<and> get_api_user_data jwt_verify secret isoNow req = user_data_handler isoNow (req\<lparr>user := Some d\<rparr>))
   \<and> ((\<forall>t d. authorization req = Some (''Bearer '' @ t) \<and> t \<noteq> [] \<longrightarrow> jwt_verify t secret \<noteq> Inr d) \<longrightarrow>
      (\<exists>m. m \<in> {''No token provided'', ''Invalid token format. Use Bearer <token>'',
                ''Token has expired'', ''Invalid token'', ''Token verification failed''}
         \<and> (\<forall>handler. verifyToken jwt_verify secret req handler =
                Inr \<lparr>status = 401, json = JObj [(''message'', JStr m)]\<rparr>)
         \<and> get_api_profile jwt_verify secret req =
                Inr \<lparr>status = 401, json = JObj [(''message'', JStr m)]\<rparr>
         \<and> get_api_user_data jwt_verify secret isoNow req =
                Inr \<lparr>status = 401, json = JObj [(''message'', JStr m)]\<rparr>))"
proof (intro conjI allI impI)
  fix t d
  assume a: "authorization req = Some (''Bearer '' @ t) \<and> t \<noteq> [] \<and> jwt_verify t secret = Inr d"
  then have "\<And>handler. verifyToken jwt_verify secret req handler = handler (req\<lparr>user := Some d\<rparr>)"
    using verifyToken_bearer [of req t jwt_verify secret] by simp
  then show "verifyToken jwt_verify secret req next = next (req\<lparr>user := Some d\<rparr>)"
    and "get_api_profile jwt_verify secret req = profile_handler (req\<lparr>user := Some d\<rparr>)"
    and "get_api_user_data jwt_verify secret isoNow req = user_data_handler isoNow (req\<lparr>user := Some d\<rparr>)"
    by (simp_all add: get_api_profile_def get_api_user_data_def)
next
  let ?messages = "{''No token provided'', ''Invalid token format. Use Bearer <token>'',
                ''Token has expired'', ''Invalid token'', ''Token verification failed''}"
  assume fails: "\<forall>t d. authorization req = Some (''Bearer '' @ t) \<and> t \<noteq> [] \<longrightarrow> jwt_verify t secret \<noteq> Inr d"
  have "\<exists>m. m \<in> ?messages \<and> (\<forall>handler. verifyToken jwt_verify secret req handler =
            Inr \<lparr>status = 401, json = JObj [(''message'', JStr m)]\<rparr>)"
  proof (cases "authorization req = None \<or> authorization req = Some []")
    case True
    then have "\<forall>handler. verifyToken jwt_verify secret req handler =
        Inr \<lparr>status = 401, json = JObj [(''message'', JStr ''No token provided'')]\<rparr>"
      using verifyToken_no_header [of req jwt_verify secret] by blast
    moreover have "''No token provided'' \<in> ?messages" by simp
    ultimately show ?thesis by blast
  next
    case False
    then obtain h where h: "authorization req = Some h" and nonempty: "h \<noteq> []" by auto
    show ?thesis
    proof (cases "\<not> startsWith h ''Bearer '' \<or> h = ''Bearer ''")
      case True
      then have "\<forall>handler. verifyToken jwt_verify secret req handler =
          Inr \<lparr>status = 401,
               json = JObj [(''message'', JStr ''Invalid token format. Use Bearer <token>'')]\<rparr>"
        using verifyToken_malformed [OF h nonempty, of jwt_verify secret] by blast
      moreover have "''Invalid token format. Use Bearer <token>'' \<in> ?messages" by simp
      ultimately show ?thesis by blast
    next
      case False
      then obtain t where t: "h = ''Bearer '' @ t" "t \<noteq> []"
        using startsWith_Bearer_iff [of h] by auto
      from fails h t obtain e where e: "jwt_verify t secret = Inl e"
        by (cases "jwt_verify t secret") auto
      let ?m = "if name e = ''TokenExpiredError'' then ''Token has expired''
                else if name e = ''JsonWebTokenError'' then ''Invalid token''
                else ''Token verification failed''"
      have "\<forall>handler. verifyToken jwt_verify secret req handler =
          Inr \<lparr>status = 401, json = JObj [(''message'', JStr ?m)]\<rparr>"
        using verifyToken_bearer [of req t jwt_verify secret] h t e by simp
      moreover have "?m \<in> ?messages" by simp
      ultimately show ?thesis by blast
    qed
  qed
  then obtain m where m: "m \<in> ?messages"
    "\<And>handler. verifyToken jwt_verify secret req handler =
            Inr \<lparr>status = 401, json = JObj [(''message'', JStr m)]\<rparr>" by blast
  have "get_api_profile jwt_verify secret req =
          Inr \<lparr>status = 401, json = JObj [(''message'', JStr m)]\<rparr>"
    and "get_api_user_data jwt_verify secret isoNow req =
          Inr \<lparr>status = 401, json = JObj [(''message'', JStr m)]\<rparr>"
    using m(2) by (simp_all add: get_api_profile_def get_api_user_data_def)
  with m show "\<exists>m. m \<in> ?messages
         \<and> (\<forall>handler. verifyToken jwt_verify secret req handler =
                Inr \<lparr>status = 401, json = JObj [(''message'', JStr m)]\<rparr>)
         \<and> get_api_profile jwt_verify secret req =
                Inr \<lparr>status = 401, json = JObj [(''message'', JStr m)]\<rparr>
         \<and> get_api_user_data jwt_verify secret isoNow req =
                Inr \<lparr>status = 401, json = JObj [(''message'', JStr m)]\<rparr>"
    by blast
qed

lemma stub_verify_good: "stub_verify ''header.claims.signature'' secret = Inr token_payload"
  by (simp add: stub_verify_def)

lemma stub_verify_stale:
  "stub_verify ''header.stale.signature'' secret = Inl (Error ''TokenExpiredError'')"
  by (simp add: stub_verify_def)

text \<open>
  A token that the verifier accepts, and one that it reports as expired.
\<close>

theorem request_gate_witness:
  "get_api_profile stub_verify ''s3cret''
       \<lparr>authorization = Some ''Bearer header.claims.signature'', body = [], user = None\<rparr>
     = profile_handler
         \<lparr>authorization = Some ''Bearer header.claims.signature'', body = [],
          user = Some token_payload\<rparr>
   \<and> get_api_profile stub_verify ''s3cret''
         \<lparr>authorization = Some ''Bearer header.stale.signature'', body = [], user = None\<rparr>
     = Inr \<lparr>status = 401, json = JObj [(''message'', JStr ''Token has expired'')]\<rparr>"
proof -
  let ?good = "\<lparr>authorization = Some ''Bearer header.claims.signature'', body = [], user = None\<rparr>"
  let ?stale = "\<lparr>authorization = Some ''Bearer header.stale.signature'', body = [], user = None\<rparr>"
  have late: "stub_verify t ''s3cret'' \<noteq> Inr d"
    if "authorization ?stale = Some (''Bearer '' @ t)" for t d
  proof -
    from that have "t = ''header.stale.signature''" by simp
    then show ?thesis by (simp add: stub_verify_stale)
  qed
  have a: "get_api_profile stub_verify ''s3cret'' ?good
      = profile_handler (?good\<lparr>user := Some token_payload\<rparr>)"
    using request_gate [of ?good stub_verify "''s3cret''" profile_handler "[]"]
      stub_verify_good [of "''s3cret''"]
    by simp
  have b: "\<exists>m. get_api_profile stub_verify ''s3cret'' ?stale
            = Inr \<lparr>status = 401, json = JObj [(''message'', JStr m)]\<rparr>"
    using request_gate [of ?stale stub_verify "''s3cret''" profile_handler "[]"] late
    by blast
  have c: "get_api_profile stub_verify ''s3cret'' ?stale
      = Inr \<lparr>status = 401, json = JObj [(''message'', JStr ''Token has expired'')]\<rparr>"
    using verifyToken_bearer
      [of ?stale "''header.stale.signature''" stub_verify "''s3cret''" profile_handler]
    by (simp add: get_api_profile_def stub_verify_stale)
  from a b c show ?thesis by simp
qed

section \<open>The protected data\<close>

text \<open>
  Claim C10. On \<^verbatim>\<open>GET /api/user-data\<close>, when the bearer token was verified (to
  claims other than \<^verbatim>\<open>null\<close>, on which the handler would throw), the answer is 200 and
  in its data the member \<open>accessLevel\<close> is the string \<open>admin\<close> whatever the claims are;
  \<open>userId\<close> is the \<open>id\<close> of the claims, and \<open>lastAccessed\<close> is the time of the
  request.
\<close>

theorem access_level_is_constant:
  "authorization req = Some (''Bearer '' @ t) \<Longrightarrow> t \<noteq> [] \<Longrightarrow> jwt_verify t secret = Inr d \<Longrightarrow>
   d \<noteq> JNull \<Longrightarrow>
   (\<exists>data. get_api_user_data jwt_verify secret isoNow req =
        Inr \<lparr>status = 200,
             json = JObj [(''message'', JStr ''This is protected user data''), (''data'', JObj data)]\<rparr>
      \<and> data = members [(''userId'', property d ''id''),
                         (''accessLevel'', Some (JStr ''admin'')),
                         (''lastAccessed'', Some (JStr isoNow))]
      \<and> map_of data ''accessLevel'' = Some (JStr ''admin'')
      \<and> map_of data ''userId'' = property d ''id'')"
  using verifyToken_bearer [of req t jwt_verify secret "user_data_handler isoNow"]
  by (cases "property d ''id''") (simp_all add: get_api_user_data_def user_data_handler_def)

text \<open>
  A token verified to the login payload, whose \<open>id\<close> is 1.
\<close>

theorem access_level_is_constant_witness:
  "get_api_user_data stub_verify ''s3cret'' ''2026-01-01T00:00:00.000Z''
       \<lparr>authorization = Some ''Bearer header.claims.signature'', body = [], user = None\<rparr>
     = Inr \<lparr>status = 200,
            json = JObj [(''message'', JStr ''This is protected user data''),
                         (''data'', JObj [(''userId'', JNum 1),
                                          (''accessLevel'', JStr ''admin''),
                                          (''lastAccessed'', JStr ''2026-01-01T00:00:00.000Z'')])]\<rparr>"
proof -
  have id: "property token_payload ''id'' = Some (JNum 1)" and nn: "token_payload \<noteq> JNull"
    by (simp_all add: token_payload_def DEMO_USER_def)
  show ?thesis
    using access_level_is_constant
      [of "\<lparr>authorization = Some ''Bearer header.claims.signature'', body = [], user = None\<rparr>"
          "''header.claims.signature''" stub_verify "''s3cret''" token_payload
          "''2026-01-01T00:00:00.000Z''"]
      stub_verify_good [of "''s3cret''"] nn
    by (auto simp: id)
qed

section \<open>Login\<close>

lemma falsy_iff:
  "\<not> truthy v \<longleftrightarrow>
     v = None \<or> v = Some JNull \<or> v = Some (JBool False) \<or> v = Some (JNum 0) \<or> v = Some (JStr [])"
  by (cases v rule: truthy.cases) auto


text \<open>
  Claim C6 says that the answer is 400 exactly when a field is missing or empty. A body
  whose \<open>username\<close> is \<^verbatim>\<open>false\<close> has both fields, neither of them empty, and is
  answered 400 all the same: the guard is \<^verbatim>\<open>!username || !password\<close>.
\<close>

theorem login_falsy_counterexample:
  "post_api_login stub_sign ''s3cret''
      \<lparr>authorization = None,
       body = [(''username'', JBool False), (''password'', JStr ''password123'')],
       user = None\<rparr>
     = \<lparr>status = 400, json = JObj [(''message'', JStr ''Username and password are required'')]\<rparr>
   \<and> map_of [(''username'', JBool False), (''password'', JStr ''password123'')] ''username''
       = Some (JBool False)
   \<and> map_of [(''username'', JBool False), (''password'', JStr ''password123'')] ''password''
       = Some (JStr ''password123'')"
  by (simp add: post_api_login_def)

text \<open>
  Claim C6, amended. The answer is 400 with \<open>Username and password are required\<close>
  exactly when \<open>username\<close> or \<open>password\<close> is falsy, that is missing, \<^verbatim>\<open>null\<close>,
  \<^verbatim>\<open>false\<close>, \<open>0\<close> or the empty string; 200 with \<open>Login successful\<close> and the token
  that \<open>jwt_sign\<close> makes of the payload, the secret and the one-hour option exactly when
  both are the strings \<open>admin\<close> and \<open>password123\<close>; and 401 with
  \<open>Invalid credentials\<close> in every other case.
\<close>

theorem login_classification:
  "(post_api_login jwt_sign secret req =
        \<lparr>status = 400, json = JObj [(''message'', JStr ''Username and password are required'')]\<rparr>
      \<longleftrightarrow> \<not> truthy (map_of (body req) ''username'') \<or> \<not> truthy (map_of (body req) ''password''))
   \<and> (post_api_login jwt_sign secret req =
        \<lparr>status = 200,
         json = JObj [(''message'', JStr ''Login successful''),
                      (''token'', JStr (jwt_sign token_payload secret (Options (Hours 1))))]\<rparr>
      \<longleftrightarrow> map_of (body req) ''username'' = Some (JStr ''admin'')
          \<and> map_of (body req) ''password'' = Some (JStr ''password123''))
   \<and> (post_api_login jwt_sign secret req =
        \<lparr>status = 401, json = JObj [(''message'', JStr ''Invalid credentials'')]\<rparr>
      \<longleftrightarrow> truthy (map_of (body req) ''username'') \<and> truthy (map_of (body req) ''password'')
          \<and> \<not> (map_of (body req) ''username'' = Some (JStr ''admin'')
               \<and> map_of (body req) ''password'' = Some (JStr ''password123'')))
   \<and> (\<forall>v. \<not> truthy v \<longleftrightarrow>
          v = None \<or> v = Some JNull \<or> v = Some (JBool False) \<or> v = Some (JNum 0) \<or> v = Some (JStr []))"
proof -
  let ?u = "map_of (body req) ''username''" and ?p = "map_of (body req) ''password''"
  let ?creds = "?u = Some (JStr ''admin'') \<and> ?p = Some (JStr ''password123'')"
  let ?r = "post_api_login jwt_sign secret req"
  have admin: "property DEMO_USER ''username'' = Some (JStr ''admin'')"
    and pw: "property DEMO_USER ''password'' = Some (JStr ''password123'')"
    by (simp_all add: DEMO_USER_def)
  have creds_truthy: "?creds \<Longrightarrow> truthy ?u \<and> truthy ?p" by simp
  have r400: "\<not> truthy ?u \<or> \<not> truthy ?p \<Longrightarrow> status ?r = 400
      \<and> ?r = \<lparr>status = 400, json = JObj [(''message'', JStr ''Username and password are required'')]\<rparr>"
    unfolding post_api_login_def Let_def by (simp only: if_True response.simps simp_thms)
  have r200: "?creds \<Longrightarrow> status ?r = 200
      \<and> ?r = \<lparr>status = 200,
         json = JObj [(''message'', JStr ''Login successful''),
                      (''token'', JStr (jwt_sign token_payload secret (Options (Hours 1))))]\<rparr>"
    using creds_truthy unfolding post_api_login_def Let_def admin pw
    by (simp only: if_True if_False response.simps simp_thms)
  have r401: "truthy ?u \<Longrightarrow> truthy ?p \<Longrightarrow> \<not> ?creds \<Longrightarrow> status ?r = 401
      \<and> ?r = \<lparr>status = 401, json = JObj [(''message'', JStr ''Invalid credentials'')]\<rparr>"
    unfolding post_api_login_def Let_def admin pw
    by (simp only: if_True if_False response.simps simp_thms)
  have s400: "?r = \<lparr>status = 400, json = j\<rparr> \<Longrightarrow> status ?r = 400" for j by simp
  have s200: "?r = \<lparr>status = 200, json = j\<rparr> \<Longrightarrow> status ?r = 200" for j by simp
  have s401: "?r = \<lparr>status = 401, json = j\<rparr> \<Longrightarrow> status ?r = 401" for j by simp
  have n1: "(400::nat) \<noteq> 200" "(400::nat) \<noteq> 401" "(200::nat) \<noteq> 401" by simp_all
  have c1: "?r = \<lparr>status = 400, json = JObj [(''message'', JStr ''Username and password are required'')]\<rparr>
      \<longleftrightarrow> \<not> truthy ?u \<or> \<not> truthy ?p"
    using r400 r200 r401 s400 n1 by metis
  have c2: "?r = \<lparr>status = 200,
         json = JObj [(''message'', JStr ''Login successful''),
                      (''token'', JStr (jwt_sign token_payload secret (Options (Hours 1))))]\<rparr>
      \<longleftrightarrow> ?creds"
    using r400 r200 r401 s200 n1 creds_truthy by metis
  have c3: "?r = \<lparr>status = 401, json = JObj [(''message'', JStr ''Invalid credentials'')]\<rparr>
      \<longleftrightarrow> truthy ?u \<and> truthy ?p \<and> \<not> ?creds"
    using r400 r200 r401 s401 n1 by metis
  from c1 c2 c3 falsy_iff show ?thesis by blast
qed

text \<open>
  An empty body, the valid credential and a wrong password.
\<close>

theorem login_classification_witness:
  "post_api_login stub_sign ''s3cret'' \<lparr>authorization = None, body = [], user = None\<rparr>
     = \<lparr>status = 400, json = JObj [(''message'', JStr ''Username and password are required'')]\<rparr>
   \<and> post_api_login stub_sign ''s3cret''
        \<lparr>authorization = None,
         body = [(''username'', JStr ''admin''), (''password'', JStr ''password123'')],
         user = None\<rparr>
     = \<lparr>status = 200,
        json = JObj [(''message'', JStr ''Login successful''),
                     (''token'', JStr ''header.claims.signature'')]\<rparr>
   \<and> post_api_login stub_sign ''s3cret''
        \<lparr>authorization = None,
         body = [(''username'', JStr ''admin''), (''password'', JStr ''wrong'')],
         user = None\<rparr>
     = \<lparr>status = 401, json = JObj [(''message'', JStr ''Invalid credentials'')]\<rparr>"
proof -
  note c = login_classification [of stub_sign "''s3cret''"]
  have a: "post_api_login stub_sign ''s3cret''
        \<lparr>authorization = None, body = [], user = None\<rparr>
     = \<lparr>status = 400, json = JObj [(''message'', JStr ''Username and password are required'')]\<rparr>"
    using c [of "\<lparr>authorization = None, body = [], user = None\<rparr>"] by simp
  have b: "post_api_login stub_sign ''s3cret''
        \<lparr>authorization = None,
         body = [(''username'', JStr ''admin''), (''password'', JStr ''password123'')],
         user = None\<rparr>
     = \<lparr>status = 200,
        json = JObj [(''message'', JStr ''Login successful''),
                     (''token'', JStr ''header.claims.signature'')]\<rparr>"
    using c [of "\<lparr>authorization = None,
         body = [(''username'', JStr ''admin''), (''password'', JStr ''password123'')],
         user = None\<rparr>"]
    unfolding stub_sign_def by simp
  have d: "post_api_login stub_sign ''s3cret''
        \<lparr>authorization = None,
         body = [(''username'', JStr ''admin''), (''password'', JStr ''wrong'')],
         user = None\<rparr>
     = \<lparr>status = 401, json = JObj [(''message'', JStr ''Invalid credentials'')]\<rparr>"
    using c [of "\<lparr>authorization = None,
         body = [(''username'', JStr ''admin''), (''password'', JStr ''wrong'')],
         user = None\<rparr>"]
    by simp
  from a b d show ?thesis by simp
qed

section \<open>The names of the claims\<close>




section \<open>Tokens: issue, verify, expire\<close>

text \<open>
  The theorems of this section are about the issuer and the verifier as the spec
  describes them. They hold for every scheme whose parser reads an issued token back
  into the parts that were encoded, which is the one thing asked of the encoding.
\<close>

lemma errors_differ: "InvalidToken \<noteq> TokenExpired"
  by (simp add: InvalidToken_def TokenExpired_def)


lemma issued_parts_simps:
  "header (issued_parts L t0 c secret opts) = alg L"
  "claims (issued_parts L t0 c secret opts) = c"
  "expiry (issued_parts L t0 c secret opts) = t0 + span_seconds (expiresIn opts)"
  "signature (issued_parts L t0 c secret opts) =
     mac L (alg L, c, t0 + span_seconds (expiresIn opts)) secret"
  by (simp_all add: issued_parts_def Let_def)














section \<open>Altered tokens\<close>

text \<open>
  What the verifier itself guarantees about a token that is not the issued one, whatever
  the MAC is: it accepts a token only when the signature the token carries is the MAC of
  the token's own header, claims and expiry under the verifier's secret. Hence an issued
  token whose signature alone was changed is rejected as invalid, at every time, expired
  or not. That a changed header or claims, or another secret, cannot come with a
  matching signature is a property of the MAC and not of this code.
\<close>

lemma verify_accepts_iff:
  "verify L t tok secret = Inr c \<longleftrightarrow>
     (\<exists>p. parse L tok = Some p \<and> signature p = mac L (header p, claims p, expiry p) secret
          \<and> t < expiry p \<and> claims p = c)"
  by (auto simp: verify_def split: option.splits)

lemma unparseable_rejected:
  "parse L tok = None \<Longrightarrow> verify L t tok secret = Inl InvalidToken"
  by (simp add: verify_def)

lemma altered_signature_rejected:
  assumes "parse L tok = Some ((issued_parts L t0 c secret opts)\<lparr>signature := s\<rparr>)"
    and "s \<noteq> signature (issued_parts L t0 c secret opts)"
  shows "verify L t tok secret = Inl InvalidToken"
  using assms by (simp add: verify_def issued_parts_simps)

lemma invalid_token_answer:
  "tok \<noteq> [] \<Longrightarrow> authorization req = Some (''Bearer '' @ tok) \<Longrightarrow>
   jv tok secret = Inl InvalidToken \<Longrightarrow>
   verifyToken jv secret req next =
     Inr \<lparr>status = 401, json = JObj [(''message'', JStr ''Invalid token'')]\<rparr>"
  using verifyToken_bearer [of req tok jv secret "next"] by (simp add: InvalidToken_def)

end
